theory Spec2Isabelle
  imports
    Complex_Main
    "HOL-Library.Char_ord"
    "HOL-Library.List_Lexorder"
    "HOL-Library.Multiset"
    "HOL-Library.AList"
begin

section \<open>Python values, strings and slices\<close>

text \<open>
  The values that appear in the dictionaries of \<^verbatim>\<open>myfitnesspal_scraper.py\<close>.
  Python integers are unbounded (\<open>int\<close>); a float value is carried as the real number
  it denotes, and no float arithmetic is modelled.  Strings are Python 2 byte strings,
  that is, lists of characters.
\<close>

datatype pyval = PInt int | PFloat real | PStr string | PBool bool

datatype error = KeyError string | TypeError string | ValueError string

text \<open>Python truthiness, as used by \<^verbatim>\<open>not include_zero\<close>.\<close>

fun truthy :: "pyval \<Rightarrow> bool" where
  "truthy (PInt n) = (n \<noteq> 0)"
| "truthy (PFloat x) = (x \<noteq> 0)"
| "truthy (PStr s) = (s \<noteq> [])"
| "truthy (PBool b) = b"

text \<open>\<^verbatim>\<open>v == 0\<close> for a Python value; a string never equals a number.\<close>

fun py_eq_zero :: "pyval \<Rightarrow> bool" where
  "py_eq_zero (PInt n) = (n = 0)"
| "py_eq_zero (PFloat x) = (x = 0)"
| "py_eq_zero (PStr s) = False"
| "py_eq_zero (PBool b) = (\<not> b)"

text \<open>
  \<^verbatim>\<open>s.rfind(c)\<close> for a one-character needle: the highest index at which \<open>c\<close>
  occurs, or \<open>-1\<close>.
\<close>

fun rfind :: "string \<Rightarrow> char \<Rightarrow> int" where
  "rfind [] c = - 1"
| "rfind (x # xs) c =
     (let r = rfind xs c in
      if 0 \<le> r then r + 1 else if x = c then 0 else - 1)"

text \<open>
  \<^verbatim>\<open>s[a:b]\<close>: a negative bound counts from the end, every bound is clamped to
  the string, and an empty range gives the empty string.
\<close>

definition py_slice :: "'a list \<Rightarrow> int \<Rightarrow> int \<Rightarrow> 'a list" where
  "py_slice s a b =
     (let n = int (length s);
          clamp = (\<lambda>i. if i < 0 then max (i + n) 0 else min i n);
          lo = clamp a;
          hi = clamp b
      in take (nat (hi - lo)) (drop (nat lo) s))"

text \<open>\<^verbatim>\<open>str.strip()\<close> of Python 2 removes the six ASCII whitespace characters.\<close>

definition isspace :: "char \<Rightarrow> bool" where
  "isspace c = (c \<in> {CHR 0x20, CHR 0x09, CHR 0x0A, CHR 0x0B, CHR 0x0C, CHR 0x0D})"

definition strip :: "string \<Rightarrow> string" where
  "strip s = rev (dropWhile isspace (rev (dropWhile isspace s)))"

text \<open>\<^verbatim>\<open>str.lower()\<close> of Python 2 (C locale): only \<open>A\<close>..\<open>Z\<close> change.\<close>

definition lower_char :: "char \<Rightarrow> char" where
  "lower_char c =
     (let n = (of_char c :: nat) in if 65 \<le> n \<and> n \<le> 90 then char_of (n + 32) else c)"

definition lower :: "string \<Rightarrow> string" where
  "lower s = map lower_char s"

text \<open>\<^verbatim>\<open>a in b\<close> on strings: \<open>a\<close> occurs as a contiguous substring of \<open>b\<close>.\<close>

fun is_prefix :: "string \<Rightarrow> string \<Rightarrow> bool" where
  "is_prefix [] ys = True"
| "is_prefix (x # xs) [] = False"
| "is_prefix (x # xs) (y # ys) = (x = y \<and> is_prefix xs ys)"

fun str_contains :: "string \<Rightarrow> string \<Rightarrow> bool" where
  "str_contains a [] = (a = [])"
| "str_contains a (y # ys) = (is_prefix a (y # ys) \<or> str_contains a ys)"

section \<open>Splitting a food description\<close>

definition FOOD_METRICS :: "string list" where
  "FOOD_METRICS =
     [''calories'', ''carbs'', ''fat'', ''protein'', ''sugar'', ''fiber'', ''sodium'',
      ''cholesterol'']"

definition split_into_food_name_and_qty :: "string \<Rightarrow> string \<times> string" where
  "split_into_food_name_and_qty food_log_entry =
     (let last_comma_pos = rfind food_log_entry (CHR '','') in
      (strip (py_slice food_log_entry 0 last_comma_pos),
       strip (py_slice food_log_entry (last_comma_pos + 2) (int (length food_log_entry)))))"

section \<open>FoodLogEntry\<close>

text \<open>
  One exported row.  \<open>food\<close>, \<open>meal\<close> and \<open>date\<close> (epoch milliseconds) are the
  columns the code reads by name; \<open>cols\<close> holds the remaining numeric columns of
  the row, the nutrition metrics among them, and a column that the export lacks is
  \<open>None\<close> there.
\<close>

record entry =
  food :: string
  meal :: string
  date :: int
  cols :: "string \<rightharpoonup> int"

definition get_name :: "entry \<Rightarrow> string" where
  "get_name e = fst (split_into_food_name_and_qty (food e))"

definition get_qty :: "entry \<Rightarrow> string" where
  "get_qty e = snd (split_into_food_name_and_qty (food e))"

definition get_meal :: "entry \<Rightarrow> string" where
  "get_meal e = lower (meal e)"

text \<open>\<^verbatim>\<open>macros()\<close>: the row restricted to the keys in \<^verbatim>\<open>FOOD_METRICS\<close>.\<close>

definition macros :: "entry \<Rightarrow> (string \<rightharpoonup> int)" where
  "macros e = (\<lambda>k. if k \<in> set FOOD_METRICS then cols e k else None)"

section \<open>Properties of the split\<close>

lemma rfind_absent: "c \<notin> set s \<Longrightarrow> rfind s c = - 1"
  by (induction s) (auto simp: Let_def)

lemma rfind_bounds: "- 1 \<le> rfind s c \<and> rfind s c < int (length s)"
  by (induction s) (auto simp: Let_def)

lemma rfind_last: "c \<notin> set q \<Longrightarrow> rfind (n @ c # q) c = int (length n)"
  by (induction n) (auto simp: Let_def rfind_absent)

lemma py_slice_to_minus_one: "py_slice s 0 (- 1) = butlast s"
  by (cases "s = []") (auto simp: py_slice_def Let_def butlast_conv_take max_def nat_diff_distrib)

lemma py_slice_from_one: "py_slice s 1 (int (length s)) = tl s"
  by (cases s) (auto simp: py_slice_def Let_def)

lemma py_slice_prefix: "py_slice (n @ r) 0 (int (length n)) = n"
  by (simp add: py_slice_def Let_def)

lemma py_slice_suffix:
  "py_slice (n @ a # b # q) (int (length n) + 2) (int (length (n @ a # b # q))) = q"
  by (simp add: py_slice_def Let_def nat_add_distrib)

text \<open>
  C10.  A description without any comma is not kept whole: \<^verbatim>\<open>rfind\<close> answers
  \<open>-1\<close>, which the slices read as an index, so the name is the description without
  its last character and the quantity is the description without its first one, both
  stripped.
\<close>

theorem no_comma_split:
  assumes "CHR '','' \<notin> set (food e)"
  shows "get_name e = strip (butlast (food e)) \<and> get_qty e = strip (tl (food e))"
  using assms
  by (simp add: get_name_def get_qty_def split_into_food_name_and_qty_def Let_def
      rfind_absent py_slice_to_minus_one py_slice_from_one)

theorem no_comma_split_witness:
  "CHR '','' \<notin> set (food \<lparr>food = ''Apple'', meal = ''Lunch'', date = 0, cols = Map.empty\<rparr>)
   \<and> get_name \<lparr>food = ''Apple'', meal = ''Lunch'', date = 0, cols = Map.empty\<rparr> = ''Appl''
   \<and> get_qty \<lparr>food = ''Apple'', meal = ''Lunch'', date = 0, cols = Map.empty\<rparr> = ''pple''"
  using no_comma_split [of "\<lparr>food = ''Apple'', meal = ''Lunch'', date = 0, cols = Map.empty\<rparr>"]
  by (simp add: strip_def isspace_def)

lemma length_strip_le: "length (strip s) \<le> length s"
proof -
  have "length (strip s) \<le> length (dropWhile isspace s)"
    using length_dropWhile_le [of isspace "rev (dropWhile isspace s)"] by (simp add: strip_def)
  also have "\<dots> \<le> length s" by (rule length_dropWhile_le)
  finally show ?thesis .
qed

lemma strip_glue_eq:
  assumes "strip n @ g @ strip q = n @ g @ q"
  shows "strip n = n \<and> strip q = q"
proof -
  have "length (strip n) + length (strip q) = length n + length q"
    using arg_cong [OF assms, of length] by simp
  then have "length (strip n) = length n"
    using length_strip_le [of n] length_strip_le [of q] by linarith
  then show ?thesis using assms by simp
qed

text \<open>
  C4, as the code has it.  For a description \<^verbatim>\<open>name + ", " + quantity\<close> whose
  quantity has no comma, the split is at the last comma, commas inside the name are
  kept, and both halves come back stripped.  So
  \<^verbatim>\<open>name() + ", " + quantity()\<close> is the description again exactly when neither
  half begins or ends with whitespace.
\<close>

theorem split_at_last_comma:
  assumes "food e = n @ '', '' @ q"
    and "CHR '','' \<notin> set q"
  shows "get_name e = strip n \<and> get_qty e = strip q
         \<and> (get_name e @ '', '' @ get_qty e = food e \<longleftrightarrow> strip n = n \<and> strip q = q)"
proof -
  have pos: "rfind (food e) (CHR '','') = int (length n)"
    using assms rfind_last [of "CHR '',''" "CHR '' '' # q" n] by simp
  have name: "py_slice (food e) 0 (int (length n)) = n"
    using assms(1) py_slice_prefix [of n "'', '' @ q"] by simp
  have qty: "py_slice (food e) (int (length n) + 2) (int (length (food e))) = q"
    using assms(1) py_slice_suffix [of n "CHR '',''" "CHR '' ''" q] by simp
  have split: "get_name e = strip n" "get_qty e = strip q"
    using pos name qty
    by (simp_all add: get_name_def get_qty_def split_into_food_name_and_qty_def Let_def)
  have "strip n @ '', '' @ strip q = n @ '', '' @ q \<longleftrightarrow> strip n = n \<and> strip q = q"
    using strip_glue_eq [of n "'', ''" q] by auto
  then show ?thesis
    using split assms(1) by simp
qed

theorem split_at_last_comma_witness:
  "food \<lparr>food = ''Peanut Butter, Crunchy, 2 tbsp'', meal = ''Lunch'', date = 0,
      cols = Map.empty\<rparr> = ''Peanut Butter, Crunchy'' @ '', '' @ ''2 tbsp''
   \<and> CHR '','' \<notin> set ''2 tbsp''
   \<and> strip ''Peanut Butter, Crunchy'' = ''Peanut Butter, Crunchy''
   \<and> strip ''2 tbsp'' = ''2 tbsp''
   \<and> get_name \<lparr>food = ''Peanut Butter, Crunchy, 2 tbsp'', meal = ''Lunch'', date = 0,
      cols = Map.empty\<rparr> = ''Peanut Butter, Crunchy''
   \<and> get_qty \<lparr>food = ''Peanut Butter, Crunchy, 2 tbsp'', meal = ''Lunch'', date = 0,
      cols = Map.empty\<rparr> = ''2 tbsp''
   \<and> get_name \<lparr>food = ''Peanut Butter, Crunchy, 2 tbsp'', meal = ''Lunch'', date = 0,
      cols = Map.empty\<rparr> @ '', '' @
     get_qty \<lparr>food = ''Peanut Butter, Crunchy, 2 tbsp'', meal = ''Lunch'', date = 0,
      cols = Map.empty\<rparr> = ''Peanut Butter, Crunchy, 2 tbsp''"
  using split_at_last_comma [of "\<lparr>food = ''Peanut Butter, Crunchy, 2 tbsp'', meal = ''Lunch'',
      date = 0, cols = Map.empty\<rparr>" "''Peanut Butter, Crunchy''" "''2 tbsp''"]
  by (simp add: strip_def isspace_def)

text \<open>
  C4, as the claim states it, fails inside the \<^verbatim>\<open>name, quantity\<close> layout when a
  half carries outer whitespace.  In \<^verbatim>\<open>"Peanut Butter, Crunchy , 2 tbsp"\<close> the name
  part, with its embedded comma, ends with a blank; the split is at the last comma, the
  blank is stripped, and the concatenation is \<^verbatim>\<open>"Peanut Butter, Crunchy, 2 tbsp"\<close>,
  which is not the description.
\<close>

theorem split_reconstruct_counterexample:
  "food \<lparr>food = ''Peanut Butter, Crunchy , 2 tbsp'', meal = ''Lunch'', date = 0,
      cols = Map.empty\<rparr> = ''Peanut Butter, Crunchy '' @ '', '' @ ''2 tbsp''
   \<and> get_name \<lparr>food = ''Peanut Butter, Crunchy , 2 tbsp'', meal = ''Lunch'', date = 0,
      cols = Map.empty\<rparr> = ''Peanut Butter, Crunchy''
   \<and> get_qty \<lparr>food = ''Peanut Butter, Crunchy , 2 tbsp'', meal = ''Lunch'', date = 0,
      cols = Map.empty\<rparr> = ''2 tbsp''
   \<and> get_name \<lparr>food = ''Peanut Butter, Crunchy , 2 tbsp'', meal = ''Lunch'', date = 0,
      cols = Map.empty\<rparr> @ '', '' @
     get_qty \<lparr>food = ''Peanut Butter, Crunchy , 2 tbsp'', meal = ''Lunch'', date = 0,
      cols = Map.empty\<rparr>
     \<noteq> food \<lparr>food = ''Peanut Butter, Crunchy , 2 tbsp'', meal = ''Lunch'', date = 0,
      cols = Map.empty\<rparr>"
  by (simp add: get_name_def get_qty_def split_into_food_name_and_qty_def Let_def
      py_slice_def strip_def isspace_def)

section \<open>Dates\<close>

text \<open>
  The dates of the program are values of the \<^verbatim>\<open>arrow\<close> library.  An instant is
  modelled by its number of seconds since 1970-01-01T00:00:00 in UTC; time zones other
  than UTC and fractions of a second are left out.  The calendar functions below follow
  the proleptic Gregorian calendar that Python's \<^verbatim>\<open>datetime\<close> implements.

  \<open>civil_from_days z\<close> is the (year, month, day) of day number \<open>z\<close>, day 0 being
  1970-01-01, and \<open>days_from_civil\<close> is the day number of a date.
\<close>

definition civil_from_days :: "int \<Rightarrow> int \<times> int \<times> int" where
  "civil_from_days z =
     (let z0 = z + 719468;
          era = z0 div 146097;
          doe = z0 mod 146097;
          yoe = (doe - doe div 1460 + doe div 36524 - doe div 146096) div 365;
          doy = doe - (365 * yoe + yoe div 4 - yoe div 100);
          mp = (5 * doy + 2) div 153;
          d = doy - (153 * mp + 2) div 5 + 1;
          m = (if mp < 10 then mp + 3 else mp - 9);
          y = yoe + era * 400
      in (if m \<le> 2 then y + 1 else y, m, d))"

definition days_from_civil :: "int \<Rightarrow> int \<Rightarrow> int \<Rightarrow> int" where
  "days_from_civil y m d =
     (let y0 = (if m \<le> 2 then y - 1 else y);
          mp = (if m > 2 then m - 3 else m + 9);
          doy = (153 * mp + 2) div 5 + d - 1
      in 365 * y0 + y0 div 4 - y0 div 100 + y0 div 400 + doy - 719468)"

definition is_leap :: "int \<Rightarrow> bool" where
  "is_leap y = (y mod 4 = 0 \<and> (y mod 100 \<noteq> 0 \<or> y mod 400 = 0))"

definition days_in_month :: "int \<Rightarrow> int \<Rightarrow> int" where
  "days_in_month y m =
     (if m = 2 then (if is_leap y then 29 else 28)
      else if m \<in> {4, 6, 9, 11} then 30 else 31)"

definition year_of :: "int \<Rightarrow> int" where
  "year_of t = fst (civil_from_days (t div 86400))"

definition month_of :: "int \<Rightarrow> int" where
  "month_of t = fst (snd (civil_from_days (t div 86400)))"

definition day_of :: "int \<Rightarrow> int" where
  "day_of t = snd (snd (civil_from_days (t div 86400)))"

text \<open>\<^verbatim>\<open>weekday()\<close>: Monday is 0; 1970-01-01 was a Thursday.\<close>

definition weekday :: "int \<Rightarrow> int" where
  "weekday t = (t div 86400 + 3) mod 7"

text \<open>\<^verbatim>\<open>floor('day')\<close>: midnight of the instant's day.\<close>

definition floor_day :: "int \<Rightarrow> int" where
  "floor_day t = t - t mod 86400"

text \<open>\<^verbatim>\<open>replace(days=n)\<close> with the plural name shifts the instant by \<open>n\<close> days.\<close>

definition shift_days :: "int \<Rightarrow> int \<Rightarrow> int" where
  "shift_days n t = t + 86400 * n"

text \<open>
  \<^verbatim>\<open>replace(years=+1)\<close> shifts by one calendar year, as \<^verbatim>\<open>relativedelta\<close>
  does: the same month, day and time of day in the next year, the day clipped to the
  length of that month (29 February becomes 28 February).  The instant moves by the
  number of days between the two dates.
\<close>

definition shift_year :: "int \<Rightarrow> int" where
  "shift_year t =
     (let y = year_of t; m = month_of t; d = day_of t;
          d' = min d (days_in_month (y + 1) m)
      in t + 86400 * (days_from_civil (y + 1) m d' - days_from_civil y m d))"

subsection \<open>Formatting\<close>

fun digits :: "nat \<Rightarrow> string" where
  "digits n = (if n < 10 then [char_of (48 + n)] else digits (n div 10) @ [char_of (48 + n mod 10)])"

declare digits.simps [simp del]

definition zero_pad :: "nat \<Rightarrow> nat \<Rightarrow> string" where
  "zero_pad w n = replicate (w - length (digits n)) (CHR ''0'') @ digits n"

definition month_name :: "int \<Rightarrow> string" where
  "month_name m =
     [''January'', ''February'', ''March'', ''April'', ''May'', ''June'', ''July'',
      ''August'', ''September'', ''October'', ''November'', ''December''] ! nat (m - 1)"

text \<open>\<^verbatim>\<open>format('YYYY-MM-DD')\<close>, the \<^verbatim>\<open>DATE_FORMAT\<close> of the scraper class.\<close>

definition format_YYYY_MM_DD :: "int \<Rightarrow> string" where
  "format_YYYY_MM_DD t =
     zero_pad 4 (nat (year_of t)) @ ''-'' @ zero_pad 2 (nat (month_of t)) @ ''-''
       @ zero_pad 2 (nat (day_of t))"

text \<open>\<^verbatim>\<open>format('M/D/YYYY')\<close>, the module's \<^verbatim>\<open>DATE_FORMAT\<close>.\<close>

definition format_M_D_YYYY :: "int \<Rightarrow> string" where
  "format_M_D_YYYY t =
     digits (nat (month_of t)) @ ''/'' @ digits (nat (day_of t)) @ ''/''
       @ zero_pad 4 (nat (year_of t))"

text \<open>\<^verbatim>\<open>format('YYYY - MM - MMMM')\<close>, the module's \<^verbatim>\<open>MONTH_FORMAT\<close>.\<close>

definition format_YYYY_MM_MMMM :: "int \<Rightarrow> string" where
  "format_YYYY_MM_MMMM t =
     zero_pad 4 (nat (year_of t)) @ '' - '' @ zero_pad 2 (nat (month_of t)) @ '' - ''
       @ month_name (month_of t)"

section \<open>FoodLog\<close>

text \<open>
  A date argument is a Python object.  Two classes matter to the program: an
  \<^verbatim>\<open>arrow.Arrow\<close>, which has \<^verbatim>\<open>format()\<close> and whose \<^verbatim>\<open>replace()\<close> takes
  \<^verbatim>\<open>years\<close>, and a time-zone aware \<^verbatim>\<open>datetime.datetime\<close>, which compares with an
  \<^verbatim>\<open>Arrow\<close> but has neither.  Both carry an instant.
\<close>

datatype pydate = Arrow int | Datetime int

fun instant :: "pydate \<Rightarrow> int" where
  "instant (Arrow t) = t"
| "instant (Datetime t) = t"

text \<open>A row of an aggregation view: a dictionary from field names to values.\<close>

type_synonym row = "string \<rightharpoonup> pyval"

text \<open>
  \<^verbatim>\<open>FoodLog\<close> is a list of entries with two attributes that \<^verbatim>\<open>scrape_logs\<close>
  sets.
\<close>

record food_log =
  entries :: "entry list"
  start_date :: pydate
  end_date :: pydate

text \<open>\<^verbatim>\<open>sorted(list(result))\<close> of the set of lower-cased meal names.\<close>

definition get_unique_meal_names :: "food_log \<Rightarrow> string list" where
  "get_unique_meal_names self =
     sort (remdups (map (\<lambda>log_entry. lower (meal log_entry)) (entries self)))"

section \<open>daily\_macros\<close>

text \<open>
  The value that \<^verbatim>\<open>default_macros_daily_entry()\<close> builds: a \<^verbatim>\<open>Counter\<close>, which
  reads a missing key as 0, with a \<^verbatim>\<open>defaultdict(Counter)\<close> under \<^verbatim>\<open>'meals'\<close>.
  The meals are kept as an association list, since their keys are counted.
\<close>

record macros_daily_entry =
  totals :: "string \<Rightarrow> int"
  meals :: "(string \<times> (string \<Rightarrow> int)) list"

definition default_macros_daily_entry :: macros_daily_entry where
  "default_macros_daily_entry = \<lparr>totals = (\<lambda>k. 0), meals = []\<rparr>"

definition meal_counter ::
  "(string \<times> (string \<Rightarrow> int)) list \<Rightarrow> string \<Rightarrow> (string \<Rightarrow> int)" where
  "meal_counter ms meal_name = (case map_of ms meal_name of None \<Rightarrow> (\<lambda>k. 0) | Some c \<Rightarrow> c)"

text \<open>
  \<^verbatim>\<open>days[day][k] += v; days[day]['meals'][meal][k] += v\<close>.  The dictionary
  \<^verbatim>\<open>days\<close> is a \<^verbatim>\<open>defaultdict\<close> keyed by the \<^verbatim>\<open>Arrow\<close> of the entry, which
  hashes and compares by its instant.
\<close>

definition add_metric ::
  "int \<Rightarrow> string \<Rightarrow> string \<Rightarrow> int \<Rightarrow> (int \<Rightarrow> macros_daily_entry) \<Rightarrow>
   (int \<Rightarrow> macros_daily_entry)" where
  "add_metric day meal_name k v days =
     (let d = days day;
          c = meal_counter (meals d) meal_name
      in days(day := \<lparr>totals = (totals d)(k := totals d k + v),
                      meals = AList.update meal_name (c(k := c k + v)) (meals d)\<rparr>))"

text \<open>The \<^verbatim>\<open>tokens\<close> filter: without tokens every entry contributes.\<close>

definition matches_tokens :: "string list option \<Rightarrow> entry \<Rightarrow> bool" where
  "matches_tokens tokens e =
     (case tokens of
        None \<Rightarrow> True
      | Some ts \<Rightarrow> list_ex (\<lambda>token. str_contains (lower token) (lower (get_name e))) ts)"

text \<open>
  One entry: \<^verbatim>\<open>day = arrow.get(entry['date'] / 1000)\<close> (integer division in
  Python 2; the instant is not rounded to a day), then every metric column of the row
  is added.
\<close>

definition add_entry ::
  "entry \<Rightarrow> (int \<Rightarrow> macros_daily_entry) \<Rightarrow> (int \<Rightarrow> macros_daily_entry)" where
  "add_entry e days =
     (let day = date e div 1000;
          meal_name = lower (meal e)
      in fold (\<lambda>k ds. case cols e k of None \<Rightarrow> ds | Some v \<Rightarrow> add_metric day meal_name k v ds)
           FOOD_METRICS days)"

definition collect_days ::
  "string list option \<Rightarrow> entry list \<Rightarrow> (int \<Rightarrow> macros_daily_entry)" where
  "collect_days tokens es =
     fold (\<lambda>e days. if matches_tokens tokens e then add_entry e days else days) es
       (\<lambda>day. default_macros_daily_entry)"

text \<open>
  \<^verbatim>\<open>Arrow.range('day', start, end)\<close> is the loop
  \<^verbatim>\<open>while current <= end: results.append(current); current += one day\<close>, so its
  last element may be \<open>end\<close> itself.  \<^verbatim>\<open>Arrow.span_range('day', start, end)\<close> floors
  \<open>start\<close> to its day, runs that loop, and returns the (floor, ceiling) pair of each
  element.
\<close>

function range_day :: "int \<Rightarrow> int \<Rightarrow> int list" where
  "range_day current end =
     (if current \<le> end then current # range_day (current + 86400) end else [])"
  by pat_completeness auto
termination
  by (relation "measure (\<lambda>(current, end). nat (end - current + 1))") auto

declare range_day.simps [simp del]

definition span_range_day :: "int \<Rightarrow> int \<Rightarrow> (int \<times> int) list" where
  "span_range_day start end =
     map (\<lambda>r. (floor_day r, floor_day r + 86399)) (range_day (floor_day start) end)"

text \<open>The row of one day, before the blanking pass.\<close>

definition day_row :: "(int \<Rightarrow> macros_daily_entry) \<Rightarrow> string list \<Rightarrow> int \<Rightarrow> row" where
  "day_row days meal_names day =
     (let day_entry =
            [''date'' \<mapsto> PStr (format_M_D_YYYY day),
             ''start of week'' \<mapsto> PStr (format_M_D_YYYY (shift_days (- weekday day) day)),
             ''month'' \<mapsto> PStr (format_YYYY_MM_MMMM day),
             ''# of meals'' \<mapsto> PInt (int (length (meals (days day))))];
          day_entry = fold (\<lambda>metric r. r(metric \<mapsto> PInt (totals (days day) metric)))
                        FOOD_METRICS day_entry
      in fold (\<lambda>meal_name r.
                 fold (\<lambda>metric r.
                         r(meal_name @ '' '' @ metric \<mapsto>
                             PInt (meal_counter (meals (days day)) meal_name metric)))
                   FOOD_METRICS r)
           meal_names day_entry)"

text \<open>\<^verbatim>\<open>day[k] = ''\<close> for every key \<open>k\<close> of the row but the two identifying ones.\<close>

definition blank_row :: "row \<Rightarrow> row" where
  "blank_row day =
     (\<lambda>k. if k \<notin> set [''date'', ''start of week''] then map_option (\<lambda>v. PStr []) (day k)
           else day k)"

text \<open>
  \<^verbatim>\<open>day['calories'] == 0\<close>; the key is always there, \<^verbatim>\<open>calories\<close> being one of
  the metrics written into every row.
\<close>

definition calories_is_zero :: "row \<Rightarrow> bool" where
  "calories_is_zero day = (case day ''calories'' of Some v \<Rightarrow> py_eq_zero v | None \<Rightarrow> False)"

text \<open>
  \<^verbatim>\<open>daily_macros(self, tokens=None, include_zero='False')\<close>.  An argument that the
  caller leaves out is \<open>None\<close> here; the default of \<^verbatim>\<open>include_zero\<close> is the string
  \<^verbatim>\<open>'False'\<close>, as in the source.
\<close>

definition daily_macros :: "food_log \<Rightarrow> string list option \<Rightarrow> pyval option \<Rightarrow> row list" where
  "daily_macros self tokens include_zero_arg =
     (let include_zero = (case include_zero_arg of None \<Rightarrow> PStr ''False'' | Some v \<Rightarrow> v);
          days = collect_days tokens (entries self);
          meal_names = get_unique_meal_names self;
          result = map (\<lambda>(day, uu). day_row days meal_names day)
                     (span_range_day (instant (start_date self)) (instant (end_date self)))
      in map (\<lambda>day. if calories_is_zero day \<and> \<not> truthy include_zero then blank_row day else day)
           result)"

text \<open>
  The repository does not fix the release of \<^verbatim>\<open>arrow\<close>.  Older releases (0.5.4 is
  one) do not floor the start: their \<^verbatim>\<open>span_range\<close> runs the range loop from
  \<open>start\<close> itself and takes the span of each element.  The two functions below are
  \<^verbatim>\<open>span_range\<close> and \<^verbatim>\<open>daily_macros\<close> on such a release; on a start at midnight
  they agree with the ones above.
\<close>

definition span_range_day_unfloored :: "int \<Rightarrow> int \<Rightarrow> (int \<times> int) list" where
  "span_range_day_unfloored start end =
     map (\<lambda>r. (floor_day r, floor_day r + 86399)) (range_day start end)"

definition daily_macros_unfloored ::
  "food_log \<Rightarrow> string list option \<Rightarrow> pyval option \<Rightarrow> row list" where
  "daily_macros_unfloored self tokens include_zero_arg =
     (let include_zero = (case include_zero_arg of None \<Rightarrow> PStr ''False'' | Some v \<Rightarrow> v);
          days = collect_days tokens (entries self);
          meal_names = get_unique_meal_names self;
          result = map (\<lambda>(day, uu). day_row days meal_names day)
                     (span_range_day_unfloored (instant (start_date self))
                        (instant (end_date self)))
      in map (\<lambda>day. if calories_is_zero day \<and> \<not> truthy include_zero then blank_row day else day)
           result)"

text \<open>
  The spec's count for C2: the calendar days of the half-open span from the day of
  \<open>start\<close> up to, and not including, the day of \<open>stop\<close>.
\<close>

definition days_in_half_open_span :: "int \<Rightarrow> int \<Rightarrow> nat" where
  "days_in_half_open_span start stop = nat (stop div 86400 - start div 86400)"

subsection \<open>The number of rows\<close>

lemma length_range_day: "length (range_day c e) = nat ((e - c) div 86400 + 1)"
proof (induction c e rule: range_day.induct)
  case (1 current e)
  show ?case
  proof (cases "current \<le> e")
    case True
    then have "length (range_day current e) = Suc (nat ((e - (current + 86400)) div 86400 + 1))"
      using 1 by (subst range_day.simps) simp
    also have "(e - (current + 86400)) div 86400 = (e - current) div 86400 - 1"
      by (simp add: algebra_simps div_diff)
    also have "Suc (nat ((e - current) div 86400 - 1 + 1)) = nat ((e - current) div 86400 + 1)"
      using True by (simp add: pos_imp_zdiv_nonneg_iff Suc_nat_eq_nat_zadd1)
    finally show ?thesis .
  next
    case False
    then have "(e - current) div 86400 < 0" by (simp add: div_neg_pos_less0)
    with False show ?thesis by (subst range_day.simps) simp
  qed
qed

lemma div_minus_floor_day: "(e - floor_day s) div 86400 = e div 86400 - s div 86400"
proof -
  have "floor_day s = 86400 * (s div 86400)"
    by (simp add: floor_day_def minus_mod_eq_mult_div)
  then show ?thesis by (simp add: div_diff algebra_simps)
qed

lemma length_span_range_day:
  "length (span_range_day s e) = nat (e div 86400 - s div 86400 + 1)"
  by (simp add: span_range_day_def length_range_day div_minus_floor_day)

subsection \<open>One row per calendar day\<close>

lemma range_day_eq:
  "range_day c e = map (\<lambda>k. c + 86400 * int k) [0..<nat ((e - c) div 86400 + 1)]"
proof (induction c e rule: range_day.induct)
  case (1 current e)
  show ?case
  proof (cases "current \<le> e")
    case True
    have step: "(e - (current + 86400)) div 86400 = (e - current) div 86400 - 1"
      by (simp add: algebra_simps div_diff)
    have nonneg: "0 \<le> (e - current) div 86400"
      using True by (simp add: pos_imp_zdiv_nonneg_iff)
    define n where "n = nat ((e - current) div 86400)"
    have n: "nat ((e - current) div 86400 + 1) = Suc n"
      using nonneg by (simp add: n_def Suc_nat_eq_nat_zadd1)
    have "range_day current e = current # range_day (current + 86400) e"
      using True by (subst range_day.simps) simp
    also have "range_day (current + 86400) e
               = map (\<lambda>k. current + 86400 + 86400 * int k) [0..<n]"
      using 1 True by (simp add: step n_def)
    also have "current # map (\<lambda>k. current + 86400 + 86400 * int k) [0..<n]
               = map (\<lambda>k. current + 86400 * int k) [0..<Suc n]"
      by (simp add: upt_conv_Cons map_Suc_upt [symmetric] algebra_simps del: upt_Suc)
    finally show ?thesis by (simp only: n)
  next
    case False
    then have "(e - current) div 86400 < 0" by (simp add: div_neg_pos_less0)
    with False show ?thesis by (subst range_day.simps) simp
  qed
qed

lemma floor_day_shift: "floor_day (c + 86400 * k) = floor_day c + 86400 * k"
  by (simp add: floor_day_def)

lemma floor_day_idem: "floor_day (floor_day s) = floor_day s"
  by (simp add: floor_day_def)

lemma fold_keeps_key:
  assumes "\<And>x r. x \<in> set xs \<Longrightarrow> step x r k = r k"
  shows "fold step xs r k = r k"
  using assms by (induction xs arbitrary: r) simp_all

lemma date_no_space: "''date'' \<noteq> a @ CHR '' '' # x"
proof
  assume eq: "''date'' = a @ CHR '' '' # x"
  have "CHR '' '' \<in> set (a @ CHR '' '' # x)" by simp
  then have "CHR '' '' \<in> set ''date''" by (simp only: eq [symmetric])
  then show False by simp
qed

lemma day_row_date:
  "day_row days meal_names day ''date'' = Some (PStr (format_M_D_YYYY day))"
proof -
  have metric: "fold (\<lambda>metric r. r(metric \<mapsto> f metric)) FOOD_METRICS r ''date'' = r ''date''"
    for f :: "string \<Rightarrow> pyval" and r
    by (rule fold_keeps_key) (auto simp: FOOD_METRICS_def)
  have inner: "fold (\<lambda>metric r. r(a @ '' '' @ metric \<mapsto> g metric)) FOOD_METRICS r ''date''
               = r ''date''"
    for a and g :: "string \<Rightarrow> pyval" and r
    by (rule fold_keeps_key) (simp add: date_no_space)
  have meal: "fold (\<lambda>meal_name r.
                 fold (\<lambda>metric r. r(meal_name @ '' '' @ metric \<mapsto> h meal_name metric))
                   FOOD_METRICS r) meal_names r ''date'' = r ''date''"
    for h :: "string \<Rightarrow> string \<Rightarrow> pyval" and r
    by (rule fold_keeps_key) (rule inner)
  show ?thesis
    unfolding day_row_def Let_def by (simp only: meal metric) simp
qed

lemma blank_row_date: "blank_row r ''date'' = r ''date''"
  by (simp add: blank_row_def)

lemma length_daily_macros:
  "length (daily_macros self tokens include_zero) =
     nat (instant (end_date self) div 86400 - instant (start_date self) div 86400 + 1)"
  by (simp add: daily_macros_def Let_def length_span_range_day)

text \<open>
  C2, as the code has it.  The rows are those of consecutive calendar days, one row for
  each, beginning with the day of \<^verbatim>\<open>start_date\<close>, whatever the entries are; row
  \<open>k\<close> carries the date of the \<open>k\<close>-th day.  The span is closed at its end: a release
  of \<^verbatim>\<open>arrow\<close> that floors the start goes on while the midnight of the day is not
  after \<^verbatim>\<open>end_date\<close>, so the day of \<^verbatim>\<open>end_date\<close> has a row; an older release
  goes on while \<^verbatim>\<open>start_date\<close> plus \<open>k\<close> days is not after \<^verbatim>\<open>end_date\<close>.
\<close>

theorem daily_macros_one_row_per_day:
  "map (\<lambda>day. day ''date'') (daily_macros self tokens include_zero)
     = map (\<lambda>k. Some (PStr (format_M_D_YYYY
                               (floor_day (instant (start_date self)) + 86400 * int k))))
         [0..<nat (instant (end_date self) div 86400
                   - instant (start_date self) div 86400 + 1)]
   \<and> map (\<lambda>day. day ''date'') (daily_macros_unfloored self tokens include_zero)
     = map (\<lambda>k. Some (PStr (format_M_D_YYYY
                               (floor_day (instant (start_date self)) + 86400 * int k))))
         [0..<nat ((instant (end_date self) - instant (start_date self)) div 86400 + 1)]"
  by (simp add: daily_macros_def daily_macros_unfloored_def Let_def span_range_day_def
      span_range_day_unfloored_def range_day_eq floor_day_shift floor_day_idem
      div_minus_floor_day day_row_date blank_row_date comp_def)

text \<open>
  C2, as the claim states it, fails: for the log from 1970-01-01 to 1970-01-02 the
  half-open span holds one calendar day, and \<^verbatim>\<open>daily_macros\<close> returns two rows, the
  second one for 1970-01-02, on either release of \<^verbatim>\<open>arrow\<close>.
\<close>

theorem daily_macros_half_open_counterexample:
  "length (daily_macros \<lparr>entries = [], start_date = Arrow 0, end_date = Arrow 86400\<rparr>
      None None) = 2
   \<and> length (daily_macros_unfloored
        \<lparr>entries = [], start_date = Arrow 0, end_date = Arrow 86400\<rparr> None None) = 2
   \<and> days_in_half_open_span (instant (Arrow 0)) (instant (Arrow 86400)) = 1"
  by (simp add: daily_macros_def daily_macros_unfloored_def Let_def length_span_range_day
      span_range_day_unfloored_def length_range_day days_in_half_open_span_def)

subsection \<open>Blanking of the days without calories\<close>

lemma format_M_D_YYYY_epoch: "format_M_D_YYYY 0 = ''1/1/1970''"
  by code_simp

lemma format_YYYY_MM_MMMM_epoch: "format_YYYY_MM_MMMM 0 = ''1970 - 01 - January''"
  by code_simp

lemma range_day_epoch: "range_day 0 0 = [0]"
  by (simp add: range_day.simps)

text \<open>
  With \<^verbatim>\<open>include_zero\<close> passed and falsy, every row whose calories are zero is
  blanked: each of its keys other than \<^verbatim>\<open>date\<close> and \<^verbatim>\<open>start of week\<close> holds the
  empty string.
\<close>

lemma blank_row_blanks:
  "k \<notin> {''date'', ''start of week''} \<Longrightarrow> day k \<noteq> None \<Longrightarrow> blank_row day k = Some (PStr [])"
  by (auto simp: blank_row_def)

lemma daily_macros_falsy_blanks:
  assumes "\<not> truthy v"
  shows "daily_macros self tokens (Some v) =
         map (\<lambda>day. if calories_is_zero day then blank_row day else day)
           (daily_macros self tokens (Some (PBool True)))"
  using assms by (simp add: daily_macros_def Let_def)

text \<open>
  C1.  The claim fails when \<^verbatim>\<open>include_zero\<close> is left out: its default is the string
  \<^verbatim>\<open>'False'\<close>, which is true in a condition, so \<^verbatim>\<open>not include_zero\<close> is false and
  no row is blanked.  For the empty log of 1970-01-01 the one row has zero calories and
  keeps its month, its meal count and its calories.
\<close>

theorem daily_macros_default_keeps_zero_day:
  "map (\<lambda>day. map day [''date'', ''month'', ''# of meals'', ''calories''])
     (daily_macros \<lparr>entries = [], start_date = Arrow 0, end_date = Arrow 0\<rparr> None None)
   = [[Some (PStr ''1/1/1970''), Some (PStr ''1970 - 01 - January''), Some (PInt 0),
       Some (PInt 0)]]"
  by (simp add: daily_macros_def Let_def span_range_day_def range_day_epoch floor_day_def
      collect_days_def get_unique_meal_names_def day_row_def FOOD_METRICS_def
      default_macros_daily_entry_def calories_is_zero_def format_M_D_YYYY_epoch
      format_YYYY_MM_MMMM_epoch)

lemma daily_macros_explicit_false_blanks_zero_day:
  "map (\<lambda>day. map day [''date'', ''month'', ''# of meals'', ''calories''])
     (daily_macros \<lparr>entries = [], start_date = Arrow 0, end_date = Arrow 0\<rparr> None
        (Some (PBool False)))
   = [[Some (PStr ''1/1/1970''), Some (PStr []), Some (PStr []), Some (PStr [])]]"
  by (simp add: daily_macros_def Let_def span_range_day_def range_day_epoch floor_day_def
      collect_days_def get_unique_meal_names_def day_row_def FOOD_METRICS_def
      default_macros_daily_entry_def calories_is_zero_def format_M_D_YYYY_epoch
      format_YYYY_MM_MMMM_epoch blank_row_def)

end
